theory Spec2Isabelle
  imports Main "HOL-Library.Log_Nat" "HOL-Library.Sublist"
begin

section \<open>JavaScript values used by BrowserService\<close>

subsection \<open>Numbers\<close>

text \<open>
  A JavaScript Number is an IEEE-754 binary64 value. \<open>Fin q\<close> is the finite double whose
  exact value is the rational \<open>q\<close>; \<open>Infinity neg\<close> is the infinity of the given sign.
  The two zeros are one value here, as they are for \<open>===\<close>, the only operation of the
  source that inspects a number.
\<close>

datatype jsnum = NaN | Infinity bool | Fin rat

text \<open>\<open>a === b\<close> on two Numbers: \<open>NaN\<close> is equal to nothing, itself included.\<close>

definition jsStrictEq :: "jsnum \<Rightarrow> jsnum \<Rightarrow> bool" where
  "jsStrictEq a b = (if a = NaN then False else a = b)"

text \<open>
  Rounding of the positive rational \<open>num / den\<close> to the nearest integer, ties to the even
  one.
\<close>

definition roundHalfEven :: "int \<Rightarrow> int \<Rightarrow> int" where
  "roundHalfEven num den =
     (let q = num div den; r = num mod den
      in if 2 * r < den then q
         else if den < 2 * r then q + 1
         else if even q then q else q + 1)"

text \<open>The integer \<open>e\<close> with \<open>2^e \<le> a / b < 2^(e+1)\<close>, for positive \<open>a\<close> and \<open>b\<close>.\<close>

definition binExponent :: "int \<Rightarrow> int \<Rightarrow> int" where
  "binExponent a b =
     (let e0 = bitlen a - bitlen b
      in if (if 0 \<le> e0 then b * 2 ^ nat e0 \<le> a else b \<le> a * 2 ^ nat (- e0))
         then e0 else e0 - 1)"

text \<open>
  The Number value of the real \<open>\<plusminus> a / b\<close> (\<open>a \<ge> 0\<close>, \<open>b > 0\<close>): round to nearest, ties to
  even, with 53 bits of significand, subnormals below \<open>2^-1022\<close> and overflow to infinity
  from \<open>2^1024\<close> on.
\<close>

definition roundToDouble :: "bool \<Rightarrow> int \<Rightarrow> int \<Rightarrow> jsnum" where
  "roundToDouble neg a b =
     (if a = 0 then Fin 0
      else let k = max (binExponent a b - 52) (- 1074);
               m = (if 0 \<le> k then roundHalfEven a (b * 2 ^ nat k)
                    else roundHalfEven (a * 2 ^ nat (- k)) b)
           in if 0 \<le> k \<and> 2 ^ 1024 \<le> m * 2 ^ nat k then Infinity neg
              else Fin ((if neg then - 1 else 1) * of_int m * 2 powi k))"

text \<open>The Number written as the decimal literal \<open>m \<times> 10^x\<close>, with sign \<open>neg\<close>.\<close>

definition decimalToDouble :: "bool \<Rightarrow> int \<Rightarrow> int \<Rightarrow> jsnum" where
  "decimalToDouble neg m x =
     (if 0 \<le> x then roundToDouble neg (m * 10 ^ nat x) 1
      else roundToDouble neg m (10 ^ nat (- x)))"

subsection \<open>Strings\<close>

text \<open>
  A \<open>char\<close> stands for a UTF-16 code unit below 256. The white space and line terminators
  of ECMAScript in that range are TAB, LF, VT, FF, CR, SP and NBSP.
\<close>

definition isWhiteSpace :: "char \<Rightarrow> bool" where
  "isWhiteSpace c = ((of_char c :: nat) \<in> {9, 10, 11, 12, 13, 32, 160})"

definition isDigit :: "char \<Rightarrow> bool" where
  "isDigit c = (48 \<le> (of_char c :: nat) \<and> (of_char c :: nat) \<le> 57)"

text \<open>\<open>String.prototype.trim\<close>.\<close>

definition trim :: "string \<Rightarrow> string" where
  "trim s = rev (dropWhile isWhiteSpace (rev (dropWhile isWhiteSpace s)))"

text \<open>
  \<open>s.replace(c, '')\<close> with a one-character string pattern \<open>c\<close>: a string pattern replaces
  the first occurrence only.
\<close>

fun replaceFirst :: "char \<Rightarrow> string \<Rightarrow> string" where
  "replaceFirst c [] = []"
| "replaceFirst c (x # xs) = (if x = c then xs else x # replaceFirst c xs)"

text \<open>\<open>s.includes(pat)\<close>.\<close>

fun strIncludes :: "string \<Rightarrow> string \<Rightarrow> bool" where
  "strIncludes [] pat = (pat = [])"
| "strIncludes (c # cs) pat = (if prefix pat (c # cs) then True else strIncludes cs pat)"

definition digitsValue :: "string \<Rightarrow> int" where
  "digitsValue ds = foldl (\<lambda>n c. 10 * n + (int (of_char c) - 48)) 0 ds"

text \<open>
  An optional sign at the head of a string: whether it is a minus, and the rest.
\<close>

fun takeSign :: "string \<Rightarrow> bool \<times> string" where
  "takeSign [] = (False, [])"
| "takeSign (c # cs) =
     (if c = CHR ''-'' then (True, cs)
      else if c = CHR ''+'' then (False, cs)
      else (False, c # cs))"

text \<open>
  The value of an ExponentPart at the head of a string, 0 when there is none: \<open>e\<close> or \<open>E\<close>,
  an optional sign, and at least one digit.
\<close>

definition exponentPart :: "string \<Rightarrow> int" where
  "exponentPart s =
     (case s of
        [] \<Rightarrow> 0
      | c # cs \<Rightarrow>
          if c = CHR ''e'' \<or> c = CHR ''E'' then
            (let (neg, r) = takeSign cs; ds = takeWhile isDigit r
             in if ds = [] then 0
                else if neg then - digitsValue ds else digitsValue ds)
          else 0)"

text \<open>
  The global \<open>parseFloat\<close> on a string: leading white space is skipped, the longest prefix
  that is a StrDecimalLiteral is read (sign, \<open>Infinity\<close> or digits with an optional
  fraction and exponent), anything after it is ignored, and the result is \<open>NaN\<close> when
  there is no such prefix.
\<close>

definition parseFloat :: "string \<Rightarrow> jsnum" where
  "parseFloat s =
     (let (neg, u) = takeSign (dropWhile isWhiteSpace s)
      in if prefix ''Infinity'' u then Infinity neg
         else
           let ip = takeWhile isDigit u;
               r1 = dropWhile isDigit u;
               fp = (case r1 of [] \<Rightarrow> []
                     | c # cs \<Rightarrow> if c = CHR ''.'' then takeWhile isDigit cs else []);
               r2 = (case r1 of [] \<Rightarrow> []
                     | c # cs \<Rightarrow> if c = CHR ''.'' then dropWhile isDigit cs else r1)
           in if ip = [] \<and> fp = [] then NaN
              else decimalToDouble neg (digitsValue (ip @ fp))
                     (exponentPart r2 - int (length fp)))"

text \<open>
  \<open>parseFloat\<close> on a Number converts it to its shortest decimal string that reads back
  as the same Number, and reads it back.
\<close>

definition parseFloatNumber :: "jsnum \<Rightarrow> jsnum" where
  "parseFloatNumber n = n"

section \<open>The in-page evaluation of a search result\<close>

text \<open>
  The object that the closure given to \<open>page.evaluate\<close> in \<open>searchExpediente\<close> returns. A
  property that the object does not have is \<open>None\<close>.
\<close>

record search_result =
  costo :: "string option"
  estatus :: "string option"
  notas :: "string option"
  fechaRegistro :: "string option"
  servicio :: "string option"
  subservicio :: "string option"
  validacion :: "string option"
  hayDatos :: "bool option"
  costosCoinciden :: "bool option"

definition noDataResult :: search_result where
  "noDataResult =
     \<lparr>costo = None, estatus = None, notas = None, fechaRegistro = None, servicio = None,
      subservicio = None, validacion = None, hayDatos = Some False,
      costosCoinciden = Some False\<rparr>"

text \<open>
  The first result row is given by the text contents of its \<open>td\<close> cells, in order; a
  cell that the row does not have is \<open>undefined\<close> in the source.
\<close>

definition tieneContenido :: "string list \<Rightarrow> bool" where
  "tieneContenido cells =
     (if length cells \<le> 2 then False
      else if cells ! 2 = [] then False
      else trim (cells ! 2) \<noteq> [] \<and> trim (cells ! 2) \<noteq> ''$0.00'' \<and> trim (cells ! 2) \<noteq> ''$0'')"

text \<open>\<open>cells[2].textContent.trim().replace('$', '').replace(',', '')\<close>\<close>

definition costoSistema :: "string list \<Rightarrow> string" where
  "costoSistema cells =
     (if 2 < length cells
      then replaceFirst (CHR '','') (replaceFirst (CHR ''$'') (trim (cells ! 2)))
      else ''0'')"

text \<open>\<open>cells[i]?.textContent?.trim() || ''\<close>\<close>

definition cellText :: "string list \<Rightarrow> nat \<Rightarrow> string" where
  "cellText cells i = (if i < length cells then trim (cells ! i) else [])"

text \<open>
  The closure itself. \<open>row\<close> is \<open>None\<close> when the document has no \<open>table tbody tr\<close>;
  \<open>fmt\<close> is \<open>Intl.NumberFormat('es-MX', {style: 'currency', currency: 'MXN'}).format\<close>, a
  function of the JavaScript runtime.
\<close>

definition evalSearchRow ::
  "(jsnum \<Rightarrow> string) \<Rightarrow> string list option \<Rightarrow> jsnum \<Rightarrow> search_result" where
  "evalSearchRow fmt row guardado =
     (case row of
        None \<Rightarrow> noDataResult
      | Some cells \<Rightarrow>
          if \<not> tieneContenido cells then noDataResult
          else
            let coinciden =
                  jsStrictEq (parseFloat (costoSistema cells)) (parseFloatNumber guardado)
            in \<lparr>costo = Some (fmt (parseFloat (costoSistema cells))),
                estatus = Some (cellText cells 3),
                notas = Some (cellText cells 4),
                fechaRegistro = Some (cellText cells 5),
                servicio = Some (cellText cells 6),
                subservicio = Some (cellText cells 7),
                validacion = Some (if coinciden then ''Aceptado'' else ''No aceptado''),
                hayDatos = Some True,
                costosCoinciden = Some coinciden\<rparr>)"

section \<open>The service, its environment and its methods\<close>

subsection \<open>State\<close>

text \<open>
  The counters are Numbers that are only ever incremented by one from zero; they are
  naturals here, as they are in the source below \<open>2^53\<close>.
\<close>

record counters =
  totalRevisados :: nat
  totalConCosto :: nat
  totalAceptados :: nat

text \<open>What \<open>searchExpediente\<close> returns: \<open>{...searchResult, stats: this.stats}\<close>.\<close>

record outcome = search_result +
  stats :: counters

text \<open>
  The fields of a \<open>BrowserService\<close>. The browser and the page are objects of the
  automation library; the model keeps a handle, \<open>None\<close> for \<open>null\<close>.
\<close>

record browser_service =
  browser :: "nat option"
  page :: "nat option"
  stats :: counters
  navigationTimeout :: nat
  defaultTimeout :: nat
  maxRetries :: nat
  retryDelay :: nat

definition constructor :: browser_service where
  "constructor =
     \<lparr>browser = None, page = None,
      stats = \<lparr>totalRevisados = 0, totalConCosto = 0, totalAceptados = 0\<rparr>,
      navigationTimeout = 60000, defaultTimeout = 30000, maxRetries = 3, retryDelay = 2000\<rparr>"

record credentials =
  username :: string
  password :: string

datatype exn = Error string | TypeError string

text \<open>
  Everything outside the service: the browser process, the page and the portal behind
  it, the configuration store and the clock. \<open>'w\<close> is the state of that world; each call
  of the automation library takes the world to a new one and either resolves with a
  value (\<open>Inr\<close>) or rejects (\<open>Inl\<close>).
\<close>

record 'w env =
  getCredentials :: "'w \<Rightarrow> credentials option"
  sleep :: "nat \<Rightarrow> 'w \<Rightarrow> 'w"
  browserClose :: "'w \<Rightarrow> (exn + unit) \<times> 'w"
  pageUrl :: "'w \<Rightarrow> string"
  pageGoto :: "string \<Rightarrow> 'w \<Rightarrow> (exn + unit) \<times> 'w"
  pageQuery :: "string \<Rightarrow> 'w \<Rightarrow> (exn + bool) \<times> 'w"
  handleClick :: "string \<Rightarrow> 'w \<Rightarrow> (exn + unit) \<times> 'w"
  pageClearValue :: "string \<Rightarrow> 'w \<Rightarrow> (exn + unit) \<times> 'w"
  keyboardType :: "char \<Rightarrow> 'w \<Rightarrow> (exn + unit) \<times> 'w"
  keyboardPress :: "string \<Rightarrow> 'w \<Rightarrow> (exn + unit) \<times> 'w"
  pageWaitForSelector :: "string \<Rightarrow> 'w \<Rightarrow> (exn + unit) \<times> 'w"
  pageWaitForNavigation :: "'w \<Rightarrow> (exn + unit) \<times> 'w"
  pageType :: "string \<Rightarrow> string \<Rightarrow> 'w \<Rightarrow> (exn + unit) \<times> 'w"
  pageClick :: "string \<Rightarrow> 'w \<Rightarrow> (exn + unit) \<times> 'w"
  pageFirstRow :: "'w \<Rightarrow> (exn + string list option) \<times> 'w"
  pagePasswordFieldAbsent :: "'w \<Rightarrow> (exn + bool) \<times> 'w"
  pageClickAcceptButton :: "'w \<Rightarrow> (exn + bool) \<times> 'w"
  pageClickConfirmButton :: "'w \<Rightarrow> (exn + bool) \<times> 'w"

text \<open>
  \<open>getCredentials\<close> is \<open>configService.getCredentials\<close>, \<open>sleep\<close> the time that passes in
  \<open>delay\<close>, \<open>pageQuery\<close> is \<open>page.$\<close> and tells whether an element was found,
  \<open>handleClick\<close> is the \<open>click\<close> of the element that a selector found and
  \<open>pageClearValue\<close> the evaluation that empties it. The other evaluations are those of
  the closures of the source: \<open>pageFirstRow\<close> gives the texts of the cells of the first
  row of the result table, \<open>None\<close> when there is no row; \<open>pagePasswordFieldAbsent\<close> is the
  test of \<open>login\<close>; \<open>pageClickAcceptButton\<close> and \<open>pageClickConfirmButton\<close> click the button
  they look for and resolve with whether they found it.
\<close>

text \<open>A method runs on the service object and the world.\<close>

record 'w session =
  this :: browser_service
  world :: 'w

type_synonym ('w, 'a) action = "'w session \<Rightarrow> (exn + 'a) \<times> 'w session"

subsection \<open>Control flow\<close>

definition ret :: "'a \<Rightarrow> ('w, 'a) action" where
  "ret x s = (Inr x, s)"

definition throw :: "exn \<Rightarrow> ('w, 'a) action" where
  "throw e s = (Inl e, s)"

definition bind :: "('w, 'a) action \<Rightarrow> ('a \<Rightarrow> ('w, 'b) action) \<Rightarrow> ('w, 'b) action" where
  "bind m f s = (case m s of (Inl e, s') \<Rightarrow> (Inl e, s') | (Inr a, s') \<Rightarrow> f a s')"

definition tryCatch :: "('w, 'a) action \<Rightarrow> (exn \<Rightarrow> ('w, 'a) action) \<Rightarrow> ('w, 'a) action" where
  "tryCatch m h s = (case m s of (Inl e, s') \<Rightarrow> h e s' | (Inr a, s') \<Rightarrow> (Inr a, s'))"

text \<open>A change of a field of \<open>this\<close>.\<close>

definition modify :: "(browser_service \<Rightarrow> browser_service) \<Rightarrow> ('w, unit) action" where
  "modify f s = (Inr (), s\<lparr>this := f (this s)\<rparr>)"

text \<open>A call on the world that does not go through \<open>this.page\<close>.\<close>

definition io :: "('w \<Rightarrow> (exn + 'a) \<times> 'w) \<Rightarrow> ('w, 'a) action" where
  "io f s = (case f (world s) of (r, w') \<Rightarrow> (r, s\<lparr>world := w'\<rparr>))"

text \<open>
  A call \<open>this.page.f(...)\<close>: reading a property of \<open>null\<close> throws a TypeError before
  anything reaches the browser.
\<close>

definition onPage :: "('w \<Rightarrow> (exn + 'a) \<times> 'w) \<Rightarrow> ('w, 'a) action" where
  "onPage f s =
     (case page (this s) of
        None \<Rightarrow> (Inl (TypeError ''Cannot read properties of null''), s)
      | Some p \<Rightarrow> io f s)"

text \<open>\<open>await this.delay(ms)\<close>\<close>

definition delay :: "'w env \<Rightarrow> nat \<Rightarrow> ('w, unit) action" where
  "delay E ms s = (Inr (), s\<lparr>world := sleep E ms (world s)\<rparr>)"

subsection \<open>Selectors and messages\<close>

definition dq :: string where
  "dq = [CHR 0x22]"

definition portalHost :: string where
  "portalHost = ''portalproveedores.ikeasistencia.com''"

definition inputSelectors :: "string list" where
  "inputSelectors =
     [''input[placeholder='' @ dq @ ''No. Expediente:*'' @ dq @ '']'',
      ''input[formcontrolname='' @ dq @ ''expediente'' @ dq @ '']'',
      ''input.mat-mdc-input-element'',
      ''input[type='' @ dq @ ''text'' @ dq @ '']'']"

definition buscarSelector :: string where
  "buscarSelector = ''button:has-text('' @ dq @ ''Buscar'' @ dq @ '')''"

definition usernameSelector :: string where
  "usernameSelector = ''input[formcontrolname='' @ dq @ ''username'' @ dq @ '']''"

definition passwordSelector :: string where
  "passwordSelector = ''input[formcontrolname='' @ dq @ ''password'' @ dq @ '']''"

definition submitSelector :: string where
  "submitSelector = ''button[type='' @ dq @ ''submit'' @ dq @ '']''"

definition errorEnAceptacion :: string where
  "errorEnAceptacion = ''Error en aceptaci'' @ [CHR 0xF3] @ ''n''"

definition errorEnConsulta :: string where
  "errorEnConsulta = ''Error en consulta''"

subsection \<open>\<open>aceptarExpediente\<close>\<close>

text \<open>
  The method changes the \<open>validacion\<close> property of the object it is given; the model
  returns the object next to the boolean. The two \<open>page.evaluate\<close> calls look for the
  accept button of the row and for the confirm button of the dialog, click the one they
  find and resolve with whether they found it.
\<close>

definition aceptarExpediente ::
  "'w env \<Rightarrow> search_result \<Rightarrow> ('w, bool \<times> search_result) action" where
  "aceptarExpediente E expedienteData =
     tryCatch
       (tryCatch
          (bind (onPage (pageClickAcceptButton E)) (\<lambda>buttonClicked.
             if \<not> buttonClicked
             then throw (Error (''No se encontr'' @ [CHR 0xF3] @ '' el bot'' @ [CHR 0xF3]
                                @ ''n de aceptar''))
             else
               bind (delay E 2000) (\<lambda>_.
               bind (onPage (pageClickConfirmButton E)) (\<lambda>confirmed.
                 if confirmed
                 then bind (delay E 3000) (\<lambda>_. ret (True, expedienteData))
                 else throw (Error (''No se pudo confirmar la aceptaci'' @ [CHR 0xF3]
                                    @ ''n''))))))
          (\<lambda>acceptError.
             ret (False, expedienteData\<lparr>validacion := Some errorEnAceptacion\<rparr>)))
       (\<lambda>error. ret (False, expedienteData))"

subsection \<open>\<open>searchExpediente\<close>\<close>

text \<open>The loop over \<open>inputSelectors\<close>: a lookup that rejects goes on to the next selector.\<close>

fun findSearchInput :: "'w env \<Rightarrow> string list \<Rightarrow> ('w, string option) action" where
  "findSearchInput E [] s = (Inr None, s)"
| "findSearchInput E (sel # sels) s =
     (case onPage (pageQuery E sel) s of
        (Inr True, s') \<Rightarrow> (Inr (Some sel), s')
      | (Inr False, s') \<Rightarrow> findSearchInput E sels s'
      | (Inl e, s') \<Rightarrow> findSearchInput E sels s')"

text \<open>The loop that types the number of the expediente, one character at a time.\<close>

fun typeExpediente :: "'w env \<Rightarrow> string \<Rightarrow> ('w, unit) action" where
  "typeExpediente E [] = ret ()"
| "typeExpediente E (c # cs) = bind (onPage (keyboardType E c)) (\<lambda>_. typeExpediente E cs)"

definition submitSearch :: "'w env \<Rightarrow> ('w, unit) action" where
  "submitSearch E =
     tryCatch
       (bind (onPage (pageQuery E buscarSelector)) (\<lambda>searchButton.
          if searchButton then io (handleClick E buscarSelector)
          else onPage (keyboardPress E ''Enter'')))
       (\<lambda>error. onPage (keyboardPress E ''Enter''))"

text \<open>
  The body of the \<open>try\<close> from its second statement up to the first row that
  \<open>page.evaluate\<close> sees.
\<close>

definition fetchFirstRow :: "'w env \<Rightarrow> string \<Rightarrow> ('w, string list option) action" where
  "fetchFirstRow E expediente =
     bind (onPage (\<lambda>w. (Inr (), w))) (\<lambda>_.
     bind (onPage (\<lambda>w. (Inr (pageUrl E w), w))) (\<lambda>url.
     bind (if \<not> strIncludes url portalHost
           then bind (onPage (pageGoto E (''https://'' @ portalHost
                                          @ ''/admin/services/pendientes'')))
                  (\<lambda>_. delay E 1500)
           else ret ()) (\<lambda>_.
     bind (findSearchInput E inputSelectors) (\<lambda>inputElement.
       case inputElement of
         None \<Rightarrow> throw (Error (''No se pudo encontrar el campo de b'' @ [CHR 0xFA]
                               @ ''squeda''))
       | Some sel \<Rightarrow>
           bind (io (handleClick E sel)) (\<lambda>_.
           bind (delay E 300) (\<lambda>_.
           bind (onPage (pageClearValue E sel)) (\<lambda>_.
           bind (typeExpediente E expediente) (\<lambda>_.
           bind (delay E 300) (\<lambda>_.
           bind (submitSearch E) (\<lambda>_.
           bind (tryCatch
                   (onPage (pageWaitForSelector E ''table tbody tr, .no-results''))
                   (\<lambda>err. ret ())) (\<lambda>_.
           bind (delay E 1500) (\<lambda>_.
           onPage (pageFirstRow E)))))))))))))"

definition incRevisados :: "browser_service \<Rightarrow> browser_service" where
  "incRevisados t = t\<lparr>stats := (stats t)\<lparr>totalRevisados := totalRevisados (stats t) + 1\<rparr>\<rparr>"

definition incConCosto :: "browser_service \<Rightarrow> browser_service" where
  "incConCosto t = t\<lparr>stats := (stats t)\<lparr>totalConCosto := totalConCosto (stats t) + 1\<rparr>\<rparr>"

definition incAceptados :: "browser_service \<Rightarrow> browser_service" where
  "incAceptados t = t\<lparr>stats := (stats t)\<lparr>totalAceptados := totalAceptados (stats t) + 1\<rparr>\<rparr>"

text \<open>
  \<open>{...searchResult, stats: this.stats}\<close>. The object returned refers to the counters of
  the service; the model holds their values at the return.
\<close>

definition withStats :: "search_result \<Rightarrow> counters \<Rightarrow> outcome" where
  "withStats r c = search_result.extend r \<lparr>outcome.stats = c\<rparr>"

text \<open>
  The rest of the \<open>try\<close>: the update of the counters, the acceptance and the returned
  object.
\<close>

definition finishSearch :: "'w env \<Rightarrow> search_result \<Rightarrow> ('w, outcome) action" where
  "finishSearch E searchResult =
     bind (if hayDatos searchResult = Some True
           then bind (modify incConCosto) (\<lambda>_.
                  if costosCoinciden searchResult = Some True
                  then bind (modify incAceptados) (\<lambda>_.
                       bind (aceptarExpediente E searchResult) (\<lambda>(accepted, searchResult').
                         ret searchResult'))
                  else ret searchResult)
           else ret searchResult) (\<lambda>searchResult'.
     (\<lambda>s. ret (withStats (searchResult'\<lparr>hayDatos := None\<rparr>) (stats (this s))) s))"

text \<open>The whole body of the \<open>try\<close>.\<close>

definition searchAttempt ::
  "'w env \<Rightarrow> (jsnum \<Rightarrow> string) \<Rightarrow> string \<Rightarrow> jsnum \<Rightarrow> ('w, outcome) action" where
  "searchAttempt E fmt expediente costoGuardado =
     bind (modify incRevisados) (\<lambda>_.
     bind (fetchFirstRow E expediente) (\<lambda>row.
     finishSearch E (evalSearchRow fmt row costoGuardado)))"

text \<open>The object returned when the retries are used up.\<close>

definition errorOutcome :: "counters \<Rightarrow> outcome" where
  "errorOutcome c =
     \<lparr>costo = Some [], estatus = Some [], notas = Some [], fechaRegistro = Some [],
      servicio = Some [], subservicio = Some [], validacion = Some errorEnConsulta,
      hayDatos = None, costosCoinciden = None, outcome.stats = c\<rparr>"

subsection \<open>\<open>login\<close>, \<open>close\<close> and \<open>resetStats\<close>\<close>

definition login :: "'w env \<Rightarrow> ('w, bool) action" where
  "login E =
     tryCatch
       (bind (\<lambda>s. ret (getCredentials E (world s)) s) (\<lambda>credentials.
          case credentials of
            None \<Rightarrow> throw (Error ''No se encontraron credenciales configuradas'')
          | Some c \<Rightarrow>
              bind (onPage (pageGoto E (''https://'' @ portalHost))) (\<lambda>_.
              bind (onPage (pageWaitForSelector E usernameSelector)) (\<lambda>_.
              bind (onPage (pageWaitForSelector E passwordSelector)) (\<lambda>_.
              bind (onPage (pageType E usernameSelector (username c))) (\<lambda>_.
              bind (onPage (pageType E passwordSelector (password c))) (\<lambda>_.
              bind (onPage (pageClick E submitSelector)) (\<lambda>_.
              bind (onPage (pageWaitForNavigation E)) (\<lambda>_.
              bind (onPage (pagePasswordFieldAbsent E)) (\<lambda>isLoggedIn.
                if \<not> isLoggedIn
                then throw (Error ''Login fallido. Verifique sus credenciales.'')
                else bind (delay E 2000) (\<lambda>_. ret True)))))))))))
       (\<lambda>error. throw error)"

definition close :: "'w env \<Rightarrow> ('w, unit) action" where
  "close E s =
     (case browser (this s) of
        None \<Rightarrow> ret () s
      | Some b \<Rightarrow>
          bind (delay E 2000) (\<lambda>_.
          bind (io (browserClose E)) (\<lambda>_.
          modify (\<lambda>t. t\<lparr>browser := None, page := None\<rparr>))) s)"

definition resetStats :: "('w, unit) action" where
  "resetStats =
     modify (\<lambda>t. t\<lparr>stats := \<lparr>totalRevisados = 0, totalConCosto = 0, totalAceptados = 0\<rparr>\<rparr>)"

subsection \<open>Properties of a session and of the portal\<close>

definition statsInvariant :: "counters \<Rightarrow> bool" where
  "statsInvariant c = (totalAceptados c \<le> totalConCosto c \<and> totalConCosto c \<le> totalRevisados c)"


text \<open>
  The first row shows no cost: there is no row, the row has no third cell, or the text of
  the cell is empty, \<open>$0.00\<close> or \<open>$0\<close> once trimmed.
\<close>

definition noDataRow :: "string list option \<Rightarrow> bool" where
  "noDataRow row =
     (case row of
        None \<Rightarrow> True
      | Some cells \<Rightarrow>
          length cells \<le> 2 \<or> trim (cells ! 2) = [] \<or> trim (cells ! 2) = ''$0.00''
          \<or> trim (cells ! 2) = ''$0'')"

text \<open>An action that leaves the fields of the service as they are.\<close>

definition worldOnly :: "('w, 'a) action \<Rightarrow> bool" where
  "worldOnly m = (\<forall>s. this (snd (m s)) = this s)"

text \<open>An action that does not resolve with \<open>false\<close>.\<close>

definition neverFalse :: "('w, bool) action \<Rightarrow> bool" where
  "neverFalse m = (\<forall>s. fst (m s) \<noteq> Inr False)"

subsection \<open>A scripted portal\<close>

text \<open>
  A portal in the manner of the mocks of the unit tests: the page is on the portal, every
  selector resolves and every call succeeds, except that the world counts how many
  evaluations of the result table are still to reject. The credentials of the store, the
  first row of the table and whether the accept and confirm buttons are found are given.
\<close>

definition scriptedEnv ::
  "credentials option \<Rightarrow> string list option \<Rightarrow> bool \<Rightarrow> bool \<Rightarrow> nat env" where
  "scriptedEnv creds row acceptFound confirmFound =
     \<lparr>getCredentials = (\<lambda>w. creds),
      sleep = (\<lambda>ms w. w),
      browserClose = (\<lambda>w. (Inr (), w)),
      pageUrl = (\<lambda>w. ''https://portalproveedores.ikeasistencia.com''),
      pageGoto = (\<lambda>url w. (Inr (), w)),
      pageQuery = (\<lambda>sel w. (Inr True, w)),
      handleClick = (\<lambda>sel w. (Inr (), w)),
      pageClearValue = (\<lambda>sel w. (Inr (), w)),
      keyboardType = (\<lambda>c w. (Inr (), w)),
      keyboardPress = (\<lambda>key w. (Inr (), w)),
      pageWaitForSelector = (\<lambda>sel w. (Inr (), w)),
      pageWaitForNavigation = (\<lambda>w. (Inr (), w)),
      pageType = (\<lambda>sel text w. (Inr (), w)),
      pageClick = (\<lambda>sel w. (Inr (), w)),
      pageFirstRow = (\<lambda>w. if 0 < w then (Inl (Error ''Test error''), w - 1) else (Inr row, w)),
      pagePasswordFieldAbsent = (\<lambda>w. (Inr True, w)),
      pageClickAcceptButton = (\<lambda>w. (Inr acceptFound, w)),
      pageClickConfirmButton = (\<lambda>w. (Inr confirmFound, w))\<rparr>"

text \<open>The service after \<open>initialize\<close> with the given counters, in the world \<open>w\<close>.\<close>

definition sessionWith :: "nat \<Rightarrow> nat \<Rightarrow> nat \<Rightarrow> nat \<Rightarrow> nat session" where
  "sessionWith r c a w =
     \<lparr>this = constructor\<lparr>browser := Some 1, page := Some 1,
               stats := \<lparr>totalRevisados = r, totalConCosto = c, totalAceptados = a\<rparr>\<rparr>,
      world = w\<rparr>"

definition testCredentials :: credentials where
  "testCredentials = \<lparr>username = ''testuser'', password = ''testpassword''\<rparr>"

text \<open>
  The scripted portal with credentials in the store, where waiting for the given
  selector runs into its timeout.
\<close>

definition timeoutEnv :: "string \<Rightarrow> nat env" where
  "timeoutEnv sel =
     (scriptedEnv (Some testCredentials) None True True)
       \<lparr>pageWaitForSelector :=
          \<lambda>sel' w. if sel' = sel then (Inl (Error ''TimeoutError''), w + 1) else (Inr (), w)\<rparr>"

text \<open>The scripted portal that still shows the password field after the form is sent.\<close>

definition rejectedLoginEnv :: "nat env" where
  "rejectedLoginEnv =
     (scriptedEnv (Some testCredentials) None True True)
       \<lparr>pagePasswordFieldAbsent := \<lambda>w. (Inr False, w)\<rparr>"

text \<open>The scripted portal with a browser whose \<open>close\<close> rejects.\<close>

definition rejectingCloseEnv :: "nat env" where
  "rejectingCloseEnv =
     (scriptedEnv None None True True)
       \<lparr>browserClose := \<lambda>w. (Inl (Error ''Protocol error: Connection closed''), w + 1)\<rparr>"

text \<open>\<open>Intl.NumberFormat\<close> is outside the model; the tests here fix the text it returns.\<close>

definition testFormat :: "jsnum \<Rightarrow> string" where
  "testFormat n = ''$1,000.00''"

section \<open>Actions that leave the service alone\<close>

lemma worldOnly_ret: "worldOnly (ret x)"
  by (simp add: worldOnly_def ret_def)

lemma worldOnly_throw: "worldOnly (throw e)"
  by (simp add: worldOnly_def throw_def)

lemma worldOnly_io: "worldOnly (io f)"
  by (simp add: worldOnly_def io_def split: prod.splits)

lemma worldOnly_onPage: "worldOnly (onPage f)"
  using worldOnly_io [of f]
  by (simp add: worldOnly_def onPage_def split: option.splits)

lemma worldOnly_delay: "worldOnly (delay E ms)"
  by (simp add: worldOnly_def delay_def)

lemma worldOnlyD: "worldOnly m \<Longrightarrow> m s = (r, s') \<Longrightarrow> this s' = this s"
  by (auto simp: worldOnly_def dest: spec [of _ s])

lemma worldOnly_bind:
  assumes "worldOnly m" and "\<And>a. worldOnly (f a)"
  shows "worldOnly (bind m f)"
  unfolding worldOnly_def
proof
  fix s
  obtain r s1 where m: "m s = (r, s1)" by (cases "m s")
  from assms(1) m have t1: "this s1 = this s" by (rule worldOnlyD)
  show "this (snd (bind m f s)) = this s"
  proof (cases r)
    case (Inl e)
    with m t1 show ?thesis by (simp add: bind_def)
  next
    case (Inr a)
    from assms(2) [of a] have "this (snd (f a s1)) = this s1" by (simp add: worldOnly_def)
    with Inr m t1 show ?thesis by (simp add: bind_def)
  qed
qed

lemma worldOnly_tryCatch:
  assumes "worldOnly m" and "\<And>e. worldOnly (h e)"
  shows "worldOnly (tryCatch m h)"
  unfolding worldOnly_def
proof
  fix s
  obtain r s1 where m: "m s = (r, s1)" by (cases "m s")
  from assms(1) m have t1: "this s1 = this s" by (rule worldOnlyD)
  show "this (snd (tryCatch m h s)) = this s"
  proof (cases r)
    case (Inr a)
    with m t1 show ?thesis by (simp add: tryCatch_def)
  next
    case (Inl e)
    from assms(2) [of e] have "this (snd (h e s1)) = this s1" by (simp add: worldOnly_def)
    with Inl m t1 show ?thesis by (simp add: tryCatch_def)
  qed
qed

lemma worldOnly_case_option:
  "worldOnly a \<Longrightarrow> (\<And>x. worldOnly (f x)) \<Longrightarrow> worldOnly (case_option a f opt)"
  by (cases opt) simp_all

lemma worldOnly_if: "worldOnly a \<Longrightarrow> worldOnly b \<Longrightarrow> worldOnly (if c then a else b)"
  by simp

lemmas worldOnly_intros =
  worldOnly_ret worldOnly_throw worldOnly_io worldOnly_onPage worldOnly_delay
  worldOnly_bind worldOnly_tryCatch worldOnly_case_option worldOnly_if

lemma findSearchInput_this: "this (snd (findSearchInput E sels s)) = this s"
proof (induction sels arbitrary: s)
  case Nil
  show ?case by simp
next
  case (Cons sel sels)
  obtain r s1 where q: "onPage (pageQuery E sel) s = (r, s1)"
    by (cases "onPage (pageQuery E sel) s")
  have t1: "this s1 = this s"
    using worldOnly_onPage q by (rule worldOnlyD)
  show ?case
    using q t1 Cons.IH [of s1] by (simp split: sum.splits bool.splits)
qed

lemma worldOnly_findSearchInput: "worldOnly (findSearchInput E sels)"
  by (simp add: worldOnly_def findSearchInput_this)

lemma worldOnly_typeExpediente: "worldOnly (typeExpediente E cs)"
  by (induction cs) (simp_all add: worldOnly_intros)

lemma worldOnly_submitSearch: "worldOnly (submitSearch E)"
  unfolding submitSearch_def by (intro worldOnly_intros)

lemma worldOnly_fetchFirstRow: "worldOnly (fetchFirstRow E expediente)"
  unfolding fetchFirstRow_def
  by (intro worldOnly_intros
        worldOnly_findSearchInput worldOnly_typeExpediente worldOnly_submitSearch)

lemma worldOnly_aceptarExpediente: "worldOnly (aceptarExpediente E d)"
  unfolding aceptarExpediente_def
  by (intro worldOnly_intros)

lemma aceptarExpediente_result:
  "\<exists>ok s'. aceptarExpediente E d s =
     (Inr (ok, if ok then d else d\<lparr>validacion := Some errorEnAceptacion\<rparr>), s')"
  by (auto simp: aceptarExpediente_def tryCatch_def bind_def onPage_def io_def delay_def
        throw_def ret_def split: option.splits prod.splits sum.splits)

section \<open>One attempt of a search\<close>

lemma withStats_eq:
  "withStats r c =
     \<lparr>costo = costo r, estatus = estatus r, notas = notas r, fechaRegistro = fechaRegistro r,
      servicio = servicio r, subservicio = subservicio r, validacion = validacion r,
      hayDatos = hayDatos r, costosCoinciden = costosCoinciden r, outcome.stats = c\<rparr>"
  by (simp add: withStats_def search_result.defs)

lemma withStats_simps:
  "outcome.stats (withStats r c) = c"
  "validacion (withStats r c) = validacion r"
  "costosCoinciden (withStats r c) = costosCoinciden r"
  "hayDatos (withStats r c) = hayDatos r"
  "costo (withStats r c) = costo r"
  by (simp_all add: withStats_eq)

lemma finishSearch_noData:
  "hayDatos r \<noteq> Some True \<Longrightarrow>
   finishSearch E r s = (Inr (withStats (r\<lparr>hayDatos := None\<rparr>) (stats (this s))), s)"
  by (simp add: finishSearch_def bind_def ret_def)

lemma finishSearch_noMatch:
  "hayDatos r = Some True \<Longrightarrow> costosCoinciden r \<noteq> Some True \<Longrightarrow>
   finishSearch E r s =
     (Inr (withStats (r\<lparr>hayDatos := None\<rparr>) (stats (incConCosto (this s)))),
      s\<lparr>this := incConCosto (this s)\<rparr>)"
  by (simp add: finishSearch_def bind_def ret_def modify_def)

lemma finishSearch_match:
  assumes "hayDatos r = Some True" and "costosCoinciden r = Some True"
  shows "\<exists>ok s'. aceptarExpediente E r (s\<lparr>this := incAceptados (incConCosto (this s))\<rparr>)
             = (Inr (ok, if ok then r else r\<lparr>validacion := Some errorEnAceptacion\<rparr>), s')
           \<and> this s' = incAceptados (incConCosto (this s))
           \<and> finishSearch E r s =
             (Inr (withStats ((if ok then r else r\<lparr>validacion := Some errorEnAceptacion\<rparr>)
                       \<lparr>hayDatos := None\<rparr>) (stats (this s'))), s')"
proof -
  let ?s2 = "s\<lparr>this := incAceptados (incConCosto (this s))\<rparr>"
  obtain ok s' where a: "aceptarExpediente E r ?s2 =
      (Inr (ok, if ok then r else r\<lparr>validacion := Some errorEnAceptacion\<rparr>), s')"
    using aceptarExpediente_result [of E r ?s2] by blast
  have t: "this s' = this ?s2"
    using worldOnly_aceptarExpediente a by (rule worldOnlyD)
  have "finishSearch E r s =
      (Inr (withStats ((if ok then r else r\<lparr>validacion := Some errorEnAceptacion\<rparr>)
                       \<lparr>hayDatos := None\<rparr>) (stats (this s'))), s')"
    using assms a by (simp add: finishSearch_def bind_def ret_def modify_def)
  with a t show ?thesis by auto
qed

lemma searchAttempt_unfold:
  "searchAttempt E fmt expediente g s =
     (case fetchFirstRow E expediente (s\<lparr>this := incRevisados (this s)\<rparr>) of
        (Inl e, s1) \<Rightarrow> (Inl e, s1)
      | (Inr row, s1) \<Rightarrow> finishSearch E (evalSearchRow fmt row g) s1)"
  by (simp add: searchAttempt_def bind_def modify_def)

lemma searchAttempt_this:
  assumes "searchAttempt E fmt expediente g s = (r, s')"
  shows "(\<exists>e. r = Inl e \<and> this s' = incRevisados (this s))
       \<or> (\<exists>out. r = Inr out \<and> outcome.stats out = stats (this s')
            \<and> (this s' = incRevisados (this s)
               \<or> this s' = incConCosto (incRevisados (this s))
               \<or> this s' = incAceptados (incConCosto (incRevisados (this s)))))"
proof -
  let ?s0 = "s\<lparr>this := incRevisados (this s)\<rparr>"
  obtain r1 s1 where f: "fetchFirstRow E expediente ?s0 = (r1, s1)"
    by (cases "fetchFirstRow E expediente ?s0")
  have t1: "this s1 = incRevisados (this s)"
    using worldOnlyD [OF worldOnly_fetchFirstRow f] by simp
  show ?thesis
  proof (cases r1)
    case (Inl e)
    with assms f t1 show ?thesis by (auto simp: searchAttempt_unfold)
  next
    case (Inr row)
    let ?d = "evalSearchRow fmt row g"
    from assms f Inr have fin: "finishSearch E ?d s1 = (r, s')"
      by (simp add: searchAttempt_unfold)
    show ?thesis
    proof (cases "hayDatos ?d = Some True")
      case False
      from finishSearch_noData [OF False, of E s1] fin t1 show ?thesis
        by (auto simp: withStats_simps)
    next
      case True
      show ?thesis
      proof (cases "costosCoinciden ?d = Some True")
        case False
        from finishSearch_noMatch [OF True False, of E s1] fin t1 show ?thesis
          by (auto simp: withStats_simps)
      next
        case match: True
        from finishSearch_match [OF True match, of E s1] fin t1 show ?thesis
          by (auto simp: withStats_simps)
      qed
    qed
  qed
qed

lemma searchAttempt_Inl:
  "searchAttempt E fmt expediente g s = (Inl e, s') \<Longrightarrow> this s' = incRevisados (this s)"
  by (drule searchAttempt_this) auto

lemma searchAttempt_maxRetries:
  "searchAttempt E fmt expediente g s = (r, s') \<Longrightarrow> maxRetries (this s') = maxRetries (this s)"
  by (drule searchAttempt_this) (auto simp: incRevisados_def incConCosto_def incAceptados_def)

section \<open>The search with its retries\<close>

function searchExpediente ::
  "'w env \<Rightarrow> (jsnum \<Rightarrow> string) \<Rightarrow> string \<Rightarrow> jsnum \<Rightarrow> nat \<Rightarrow> ('w, outcome) action" where
  "searchExpediente E fmt expediente costoGuardado retryCount s =
     (case searchAttempt E fmt expediente costoGuardado s of
        (Inr result, s') \<Rightarrow> (Inr result, s')
      | (Inl error, s') \<Rightarrow>
          if retryCount < maxRetries (this s')
          then searchExpediente E fmt expediente costoGuardado (retryCount + 1)
                 (snd (delay E (retryDelay (this s')) s'))
          else (Inr (errorOutcome (stats (this s'))), s'))"
  by pat_completeness auto
termination
proof (relation "measure (\<lambda>(E, fmt, expediente, g, retryCount, s).
                   maxRetries (this s) - retryCount)")
  show "wf (measure (\<lambda>(E :: 'w env, fmt :: jsnum \<Rightarrow> string, expediente :: string, g :: jsnum,
                       retryCount, s). maxRetries (this s) - retryCount))"
    by simp
next
  fix E :: "'w env" and fmt expediente costoGuardado retryCount s x y a
  assume a: "(x, y) = searchAttempt E fmt expediente costoGuardado s"
    and "x = Inl a" and lt: "retryCount < maxRetries (this y)"
  from a have "maxRetries (this y) = maxRetries (this s)"
    by (intro searchAttempt_maxRetries [of E fmt expediente costoGuardado s x y]) simp
  with lt show "((E, fmt, expediente, costoGuardado, retryCount + 1,
                  snd (delay E (retryDelay (this y)) y)),
                 E, fmt, expediente, costoGuardado, retryCount, s)
        \<in> measure (\<lambda>(E, fmt, expediente, g, retryCount, s). maxRetries (this s) - retryCount)"
    by (simp add: delay_def)
qed

declare searchExpediente.simps [simp del]

section \<open>Calls in sequence and attempts that all fail\<close>

datatype call = SearchExpediente string jsnum nat | ResetStats

fun runCall :: "'w env \<Rightarrow> (jsnum \<Rightarrow> string) \<Rightarrow> call \<Rightarrow> 'w session \<Rightarrow> 'w session" where
  "runCall E fmt (SearchExpediente expediente costoGuardado retryCount) s =
     snd (searchExpediente E fmt expediente costoGuardado retryCount s)"
| "runCall E fmt ResetStats s = snd (resetStats s)"

fun runCalls :: "'w env \<Rightarrow> (jsnum \<Rightarrow> string) \<Rightarrow> call list \<Rightarrow> 'w session \<Rightarrow> 'w session" where
  "runCalls E fmt [] s = s"
| "runCalls E fmt (c # cs) s = runCalls E fmt cs (runCall E fmt c s)"

text \<open>
  Every attempt of a search raises, for the first attempt from \<open>s\<close> and \<open>n\<close> retries after
  it.
\<close>

fun everyAttemptRaises ::
  "'w env \<Rightarrow> (jsnum \<Rightarrow> string) \<Rightarrow> string \<Rightarrow> jsnum \<Rightarrow> nat \<Rightarrow> 'w session \<Rightarrow> bool" where
  "everyAttemptRaises E fmt expediente g 0 s =
     (case searchAttempt E fmt expediente g s of
        (Inl e, s') \<Rightarrow> True
      | (Inr out, s') \<Rightarrow> False)"
| "everyAttemptRaises E fmt expediente g (Suc n) s =
     (case searchAttempt E fmt expediente g s of
        (Inl e, s') \<Rightarrow>
          everyAttemptRaises E fmt expediente g n (snd (delay E (retryDelay (this s')) s'))
      | (Inr out, s') \<Rightarrow> False)"

section \<open>Reconciliation of the cost\<close>

lemma parseFloat_1000: "parseFloat ''1000.00'' = Fin 1000"
  by code_simp

lemma double_999_99: "decimalToDouble False 99999 (- 2) = Fin (4398002530638889 / 2 ^ 42)"
  by code_simp

lemma cell_1000:
  "tieneContenido [c0, c1, ''$1,000.00'']"
  "costoSistema [c0, c1, ''$1,000.00''] = ''1000.00''"
  by (simp_all add: tieneContenido_def costoSistema_def trim_def isWhiteSpace_def)

lemma costosCoinciden_evalSearchRow:
  "tieneContenido cells \<Longrightarrow>
   costosCoinciden (evalSearchRow fmt (Some cells) guardado)
     = Some (jsStrictEq (parseFloat (costoSistema cells)) guardado)"
  by (simp add: evalSearchRow_def parseFloatNumber_def Let_def)

text \<open>
  Claim C2. The extracted cost, once normalised and parsed, is compared with the expected
  cost by exact equality of Numbers: whenever the row has a cost, \<open>costosCoinciden\<close> is
  the value of \<open>===\<close> on the two. For the cell \<open>$1,000.00\<close> it is true against the
  expected cost 1000, false against 999.99, and false already against the Number next
  above 1000, which is \<open>1000 + 2^-43\<close>.
\<close>

theorem cost_reconciliation_exact:
  "(tieneContenido cells \<longrightarrow>
      costosCoinciden (evalSearchRow fmt (Some cells) guardado)
        = Some (jsStrictEq (parseFloat (costoSistema cells)) guardado))
   \<and> costosCoinciden (evalSearchRow fmt (Some [c0, c1, ''$1,000.00'']) (Fin 1000)) = Some True
   \<and> costosCoinciden (evalSearchRow fmt (Some [c0, c1, ''$1,000.00''])
        (decimalToDouble False 99999 (- 2))) = Some False
   \<and> costosCoinciden (evalSearchRow fmt (Some [c0, c1, ''$1,000.00''])
        (Fin (1000 + 1 / 2 ^ 43))) = Some False"
  by (simp add: costosCoinciden_evalSearchRow cell_1000 parseFloat_1000 double_999_99
        jsStrictEq_def)

theorem cost_reconciliation_exact_witness:
  "tieneContenido ['''', '''', ''$1,000.00'']
   \<and> costosCoinciden (evalSearchRow testFormat (Some ['''', '''', ''$1,000.00'']) (Fin 1000))
       = Some True"
  using cost_reconciliation_exact [of "['''', '''', ''$1,000.00'']" testFormat "Fin 1000"]
  by (simp add: cell_1000 parseFloat_1000 jsStrictEq_def)

lemma cell_1234567:
  "tieneContenido [c0, c1, ''$1,234,567.89'']"
  "costoSistema [c0, c1, ''$1,234,567.89''] = ''1234,567.89''"
  by (simp_all add: tieneContenido_def costoSistema_def trim_def isWhiteSpace_def)

lemma parseFloat_1234: "parseFloat ''1234,567.89'' = Fin 1234"
  by code_simp

lemma parseFloat_1234567: "parseFloat ''1234567.89'' = decimalToDouble False 123456789 (- 2)"
  by code_simp

lemma double_1234567_89:
  "decimalToDouble False 123456789 (- 2) = Fin (5302428712241725 / 2 ^ 32)"
  by code_simp

text \<open>
  Claim C3. The normalisation removes the first comma only. For the cell
  \<open>$1,234,567.89\<close> the text that is parsed is \<open>1234,567.89\<close>, \<open>parseFloat\<close> stops at the
  comma that is left and returns 1234, not the Number 1234567.89 that the cell denotes,
  and the comparison with the expected cost 1234567.89 is false.
\<close>

theorem only_first_thousands_separator_removed:
  "costoSistema [c0, c1, ''$1,234,567.89''] = ''1234,567.89''
   \<and> parseFloat (costoSistema [c0, c1, ''$1,234,567.89'']) = Fin 1234
   \<and> parseFloat ''1234567.89'' = decimalToDouble False 123456789 (- 2)
   \<and> parseFloat (costoSistema [c0, c1, ''$1,234,567.89'']) \<noteq> parseFloat ''1234567.89''
   \<and> costosCoinciden (evalSearchRow fmt (Some [c0, c1, ''$1,234,567.89''])
        (decimalToDouble False 123456789 (- 2))) = Some False"
  by (simp add: costosCoinciden_evalSearchRow cell_1234567 parseFloat_1234 parseFloat_1234567
        double_1234567_89 jsStrictEq_def)

section \<open>The invariant of the counters\<close>

lemma statsInvariant_inc:
  assumes "statsInvariant (stats t)"
  shows "statsInvariant (stats (incRevisados t))"
    and "statsInvariant (stats (incConCosto (incRevisados t)))"
    and "statsInvariant (stats (incAceptados (incConCosto (incRevisados t))))"
  using assms
  by (simp_all add: statsInvariant_def incRevisados_def incConCosto_def incAceptados_def)

lemma searchAttempt_invariant:
  assumes "searchAttempt E fmt expediente g s = (r, s')" and "statsInvariant (stats (this s))"
  shows "statsInvariant (stats (this s'))"
  using searchAttempt_this [OF assms(1)] statsInvariant_inc [OF assms(2)] by auto

lemma delay_this: "this (snd (delay E ms s)) = this s"
  by (simp add: delay_def)

lemma searchExpediente_invariant:
  "statsInvariant (stats (this s)) \<Longrightarrow>
   statsInvariant (stats (this (snd (searchExpediente E fmt expediente g retryCount s))))"
proof (induction E fmt expediente g retryCount s rule: searchExpediente.induct)
  case (1 E fmt expediente g retryCount s)
  obtain r s' where a: "searchAttempt E fmt expediente g s = (r, s')"
    by (cases "searchAttempt E fmt expediente g s")
  have inv': "statsInvariant (stats (this s'))"
    using a "1.prems" by (rule searchAttempt_invariant)
  show ?case
  proof (cases r)
    case (Inr out)
    with a inv' show ?thesis by (simp add: searchExpediente.simps [of E fmt expediente g retryCount s])
  next
    case (Inl e)
    show ?thesis
    proof (cases "retryCount < maxRetries (this s')")
      case False
      with a Inl inv' show ?thesis
        by (simp add: searchExpediente.simps [of E fmt expediente g retryCount s])
    next
      case True
      have "statsInvariant (stats (this (snd (delay E (retryDelay (this s')) s'))))"
        using inv' by (simp add: delay_this)
      from "1.IH" [OF a [symmetric] Inl True this] a Inl True show ?thesis
        by (simp add: searchExpediente.simps [of E fmt expediente g retryCount s])
    qed
  qed
qed

lemma runCall_invariant:
  assumes "statsInvariant (stats (this s))"
  shows "statsInvariant (stats (this (runCall E fmt c s)))"
proof (cases c)
  case (SearchExpediente expediente g retryCount)
  with assms show ?thesis by (simp add: searchExpediente_invariant)
next
  case ResetStats
  then show ?thesis by (simp add: resetStats_def modify_def statsInvariant_def)
qed

lemma runCalls_invariant:
  "statsInvariant (stats (this s)) \<Longrightarrow> statsInvariant (stats (this (runCalls E fmt cs s)))"
  by (induction cs arbitrary: s) (simp_all add: runCall_invariant)

section \<open>Runs against the scripted portal\<close>

lemma typeExpediente_scripted:
  "page (this s) = Some p \<Longrightarrow> typeExpediente (scriptedEnv creds row a c) cs s = (Inr (), s)"
  by (induction cs) (simp_all add: ret_def bind_def onPage_def io_def scriptedEnv_def)

lemma fetchFirstRow_scripted:
  assumes "page (this s) = Some p"
  shows "fetchFirstRow (scriptedEnv creds row a c) expediente s =
     (if 0 < world s then (Inl (Error ''Test error''), s\<lparr>world := world s - 1\<rparr>)
      else (Inr row, s))"
proof -
  let ?E = "scriptedEnv creds row a c"
  have u: "strIncludes (pageUrl ?E (world s)) portalHost"
    by (simp add: scriptedEnv_def portalHost_def)
  have f: "findSearchInput ?E inputSelectors s = (Inr (Some (hd inputSelectors)), s)"
    using assms by (simp add: inputSelectors_def onPage_def io_def scriptedEnv_def)
  have sub: "submitSearch ?E s = (Inr (), s)"
    using assms
    by (simp add: submitSearch_def tryCatch_def bind_def onPage_def io_def scriptedEnv_def)
  have ty: "typeExpediente ?E expediente s = (Inr (), s)"
    using assms by (rule typeExpediente_scripted)
  have sl: "delay ?E ms s = (Inr (), s)" for ms
    by (simp add: delay_def scriptedEnv_def)
  have calls:
    "onPage (\<lambda>w. (Inr (), w)) s = (Inr (), s)"
    "onPage (\<lambda>w. (Inr (pageUrl ?E w), w)) s = (Inr (pageUrl ?E (world s)), s)"
    "io (handleClick ?E sel) s = (Inr (), s)"
    "onPage (pageClearValue ?E sel) s = (Inr (), s)"
    "onPage (pageWaitForSelector ?E sel') s = (Inr (), s)"
    "onPage (pageFirstRow ?E) s =
       (if 0 < world s then (Inl (Error ''Test error''), s\<lparr>world := world s - 1\<rparr>)
        else (Inr row, s))" for sel sel'
    using assms by (simp_all add: onPage_def io_def scriptedEnv_def)
  show ?thesis
    unfolding fetchFirstRow_def
    by (simp add: bind_def ret_def tryCatch_def u f sub ty sl calls del: One_nat_def)
qed

lemma aceptarExpediente_scripted:
  "page (this s) = Some p \<Longrightarrow>
   aceptarExpediente (scriptedEnv creds row a c) d s =
     (Inr (a \<and> c, if a \<and> c then d else d\<lparr>validacion := Some errorEnAceptacion\<rparr>), s)"
  by (simp add: aceptarExpediente_def tryCatch_def bind_def onPage_def io_def delay_def
        throw_def ret_def scriptedEnv_def)

lemma searchAttempt_scripted:
  assumes "page (this s) = Some p"
  shows "searchAttempt (scriptedEnv creds row a c) fmt expediente g s =
     (if 0 < world s
      then (Inl (Error ''Test error''), s\<lparr>this := incRevisados (this s), world := world s - 1\<rparr>)
      else finishSearch (scriptedEnv creds row a c) (evalSearchRow fmt row g)
             (s\<lparr>this := incRevisados (this s)\<rparr>))"
proof -
  have "page (this (s\<lparr>this := incRevisados (this s)\<rparr>)) = Some p"
    using assms by (simp add: incRevisados_def)
  from fetchFirstRow_scripted [OF this] show ?thesis
    by (simp add: searchAttempt_unfold del: One_nat_def)
qed

lemma finishSearch_scripted:
  assumes "page (this s) = Some p"
  shows "finishSearch (scriptedEnv creds row a c) r s =
     (if hayDatos r = Some True
      then if costosCoinciden r = Some True
           then (Inr (withStats ((if a \<and> c then r else r\<lparr>validacion := Some errorEnAceptacion\<rparr>)
                         \<lparr>hayDatos := None\<rparr>) (stats (incAceptados (incConCosto (this s))))),
                 s\<lparr>this := incAceptados (incConCosto (this s))\<rparr>)
           else (Inr (withStats (r\<lparr>hayDatos := None\<rparr>) (stats (incConCosto (this s)))),
                 s\<lparr>this := incConCosto (this s)\<rparr>)
      else (Inr (withStats (r\<lparr>hayDatos := None\<rparr>) (stats (this s))), s))"
proof -
  have "page (this (s\<lparr>this := incAceptados (incConCosto (this s))\<rparr>)) = Some p"
    using assms by (simp add: incAceptados_def incConCosto_def)
  from aceptarExpediente_scripted [OF this] show ?thesis
    by (simp add: finishSearch_def bind_def ret_def modify_def)
qed

lemma row_1000:
  "evalSearchRow testFormat (Some ['''', '''', ''$1,000.00'']) (Fin 1000) =
     \<lparr>costo = Some ''$1,000.00'', estatus = Some [], notas = Some [], fechaRegistro = Some [],
      servicio = Some [], subservicio = Some [], validacion = Some ''Aceptado'',
      hayDatos = Some True, costosCoinciden = Some True\<rparr>"
  by (simp add: evalSearchRow_def cell_1000 parseFloat_1000 parseFloatNumber_def jsStrictEq_def
        cellText_def testFormat_def)

lemma sessionWith_simps:
  "page (this (sessionWith r c a w)) = Some 1"
  "world (sessionWith r c a w) = w"
  "maxRetries (this (sessionWith r c a w)) = 3"
  "stats (this (sessionWith r c a w))
     = \<lparr>totalRevisados = r, totalConCosto = c, totalAceptados = a\<rparr>"
  "(sessionWith r c a w)\<lparr>this := incRevisados (this (sessionWith r c a w))\<rparr>
     = sessionWith (r + 1) c a w"
  "(sessionWith r c a w)\<lparr>this := incConCosto (this (sessionWith r c a w))\<rparr>
     = sessionWith r (c + 1) a w"
  "(sessionWith r c a w)\<lparr>this := incAceptados (incConCosto (this (sessionWith r c a w)))\<rparr>
     = sessionWith r (c + 1) (a + 1) w"
  "(sessionWith r c a w)\<lparr>this := incRevisados (this (sessionWith r c a w)), world := w'\<rparr>
     = sessionWith (r + 1) c a w'"
  "(sessionWith r c a w)\<lparr>world := w'\<rparr> = sessionWith r c a w'"
  "snd (delay (scriptedEnv creds row af cf) ms (sessionWith r c a w)) = sessionWith r c a w"
  "stats (incConCosto (this (sessionWith r c a w)))
     = \<lparr>totalRevisados = r, totalConCosto = c + 1, totalAceptados = a\<rparr>"
  "stats (incAceptados (incConCosto (this (sessionWith r c a w))))
     = \<lparr>totalRevisados = r, totalConCosto = c + 1, totalAceptados = a + 1\<rparr>"
  by (simp_all add: sessionWith_def constructor_def incRevisados_def
        incConCosto_def incAceptados_def delay_def scriptedEnv_def)

section \<open>The counters\<close>

text \<open>
  A call leaves the browser and the page of the service as they are, and counts every
  attempt it makes: a first attempt that raises, followed by a retry, adds two or more to
  \<open>totalRevisados\<close>.
\<close>

lemma searchExpediente_handles:
  "browser (this (snd (searchExpediente E fmt expediente g retryCount s))) = browser (this s)
   \<and> page (this (snd (searchExpediente E fmt expediente g retryCount s))) = page (this s)
   \<and> totalRevisados (stats (this s)) + 1
       \<le> totalRevisados (stats (this (snd (searchExpediente E fmt expediente g retryCount s))))"
proof (induction E fmt expediente g retryCount s rule: searchExpediente.induct)
  case (1 E fmt expediente g retryCount s)
  obtain r s' where a: "searchAttempt E fmt expediente g s = (r, s')"
    by (cases "searchAttempt E fmt expediente g s")
  from searchAttempt_this [OF a]
  have k: "browser (this s') = browser (this s) \<and> page (this s') = page (this s)
           \<and> totalRevisados (stats (this s')) = totalRevisados (stats (this s)) + 1"
    by (auto simp: incRevisados_def incConCosto_def incAceptados_def)
  show ?case
  proof (cases r)
    case (Inr out)
    with a k show ?thesis
      by (simp add: searchExpediente.simps [of E fmt expediente g retryCount s])
  next
    case (Inl e)
    show ?thesis
    proof (cases "retryCount < maxRetries (this s')")
      case False
      with a Inl k show ?thesis
        by (simp add: searchExpediente.simps [of E fmt expediente g retryCount s])
    next
      case True
      from "1.IH" [OF a [symmetric] Inl True] a Inl True k show ?thesis
        by (simp add: searchExpediente.simps [of E fmt expediente g retryCount s] delay_this)
    qed
  qed
qed

lemma searchExpediente_counts_every_attempt:
  assumes "searchAttempt E fmt expediente g s = (Inl e, s1)"
    and "retryCount < maxRetries (this s)"
  shows "totalRevisados (stats (this s)) + 2
       \<le> totalRevisados (stats (this (snd (searchExpediente E fmt expediente g retryCount s))))"
proof -
  let ?s2 = "snd (delay E (retryDelay (this s1)) s1)"
  have t1: "this s1 = incRevisados (this s)"
    using assms(1) by (rule searchAttempt_Inl)
  then have m: "retryCount < maxRetries (this s1)"
    using assms(2) by (simp add: incRevisados_def)
  have "searchExpediente E fmt expediente g retryCount s
          = searchExpediente E fmt expediente g (retryCount + 1) ?s2"
    using assms(1) m by (simp add: searchExpediente.simps [of E fmt expediente g retryCount s])
  moreover have "totalRevisados (stats (this ?s2)) = totalRevisados (stats (this s)) + 1"
    using t1 by (simp add: delay_this incRevisados_def)
  ultimately show ?thesis
    using searchExpediente_handles [of E fmt expediente g "retryCount + 1" ?s2] by simp
qed

text \<open>
  Claim C1. The increment of \<open>totalRevisados\<close> is the first statement of the method, and a
  retry is a call of the method: every attempt counts. Against the scripted portal with
  the row \<open>$1,000.00\<close> and the expected cost 1000, a call whose first attempt succeeds
  leaves the counters at 1, 1, 1; the same call, when the first evaluation of the table
  rejects and the second attempt succeeds, returns the same accepted outcome with
  \<open>totalRevisados = 2\<close>.
\<close>

theorem retry_counts_revisados_again:
  "searchExpediente (scriptedEnv None (Some ['''', '''', ''$1,000.00'']) True True) testFormat
     ''123456'' (Fin 1000) 0 (sessionWith 0 0 0 0)
   = (Inr \<lparr>costo = Some ''$1,000.00'', estatus = Some [], notas = Some [],
           fechaRegistro = Some [], servicio = Some [], subservicio = Some [],
           validacion = Some ''Aceptado'', hayDatos = None, costosCoinciden = Some True,
           outcome.stats = \<lparr>totalRevisados = 1, totalConCosto = 1, totalAceptados = 1\<rparr>\<rparr>,
      sessionWith 1 1 1 0)
   \<and> searchExpediente (scriptedEnv None (Some ['''', '''', ''$1,000.00'']) True True) testFormat
     ''123456'' (Fin 1000) 0 (sessionWith 0 0 0 1)
   = (Inr \<lparr>costo = Some ''$1,000.00'', estatus = Some [], notas = Some [],
           fechaRegistro = Some [], servicio = Some [], subservicio = Some [],
           validacion = Some ''Aceptado'', hayDatos = None, costosCoinciden = Some True,
           outcome.stats = \<lparr>totalRevisados = 2, totalConCosto = 1, totalAceptados = 1\<rparr>\<rparr>,
      sessionWith 2 1 1 0)"
proof -
  let ?E = "scriptedEnv None (Some ['''', '''', ''$1,000.00'']) True True"
  let ?r = "\<lparr>costo = Some ''$1,000.00'', estatus = Some [], notas = Some [],
             fechaRegistro = Some [], servicio = Some [], subservicio = Some [],
             validacion = Some ''Aceptado'', hayDatos = None, costosCoinciden = Some True\<rparr>"
  have a0: "searchAttempt ?E testFormat ''123456'' (Fin 1000) (sessionWith 0 0 0 0)
              = (Inr (withStats ?r
                   \<lparr>totalRevisados = 1, totalConCosto = 1, totalAceptados = 1\<rparr>),
                 sessionWith 1 1 1 0)"
    by (simp add: searchAttempt_scripted [where p = 1] finishSearch_scripted [where p = 1]
          sessionWith_simps row_1000)
  have a1: "searchAttempt ?E testFormat ''123456'' (Fin 1000) (sessionWith 0 0 0 1)
              = (Inl (Error ''Test error''), sessionWith 1 0 0 0)"
    by (simp add: searchAttempt_scripted [where p = 1] sessionWith_simps)
  have a2: "searchAttempt ?E testFormat ''123456'' (Fin 1000) (sessionWith 1 0 0 0)
              = (Inr (withStats ?r
                   \<lparr>totalRevisados = 2, totalConCosto = 1, totalAceptados = 1\<rparr>),
                 sessionWith 2 1 1 0)"
    by (simp add: searchAttempt_scripted [where p = 1] finishSearch_scripted [where p = 1]
          sessionWith_simps row_1000 numeral_2_eq_2)
  have once: "searchExpediente ?E testFormat ''123456'' (Fin 1000) 0 (sessionWith 0 0 0 0)
          = (Inr (withStats ?r
                   \<lparr>totalRevisados = 1, totalConCosto = 1, totalAceptados = 1\<rparr>),
                 sessionWith 1 1 1 0)"
    by (subst searchExpediente.simps, subst a0) simp
  have "searchExpediente ?E testFormat ''123456'' (Fin 1000) 0 (sessionWith 0 0 0 1)
          = searchExpediente ?E testFormat ''123456'' (Fin 1000) 1 (sessionWith 1 0 0 0)"
    by (subst searchExpediente.simps, subst a1) (simp add: sessionWith_simps)
  also have "\<dots> = (Inr (withStats ?r
                   \<lparr>totalRevisados = 2, totalConCosto = 1, totalAceptados = 1\<rparr>),
                 sessionWith 2 1 1 0)"
    by (subst searchExpediente.simps, subst a2) simp
  finally show ?thesis
    using once by (simp add: withStats_eq)
qed

text \<open>
  Claim C4. The constructor sets counters that satisfy
  \<open>totalAceptados \<le> totalConCosto \<le> totalRevisados\<close>, and from any state that satisfies it,
  after every prefix of every sequence of \<open>searchExpediente\<close> and \<open>resetStats\<close> calls,
  whatever the portal does, it holds again.
\<close>

theorem stats_invariant_preserved:
  "statsInvariant (stats constructor)
   \<and> (statsInvariant (stats (this s)) \<longrightarrow>
        (\<forall>n. statsInvariant (stats (this (runCalls E fmt (take n calls) s)))))"
  by (simp add: runCalls_invariant) (simp add: statsInvariant_def constructor_def)

theorem stats_invariant_preserved_witness:
  "statsInvariant (stats (this (sessionWith 5 3 2 1)))
   \<and> statsInvariant (stats (this (runCalls
        (scriptedEnv None (Some ['''', '''', ''$1,000.00'']) True True) testFormat
        (take 2 [SearchExpediente ''123456'' (Fin 1000) 0, ResetStats,
                 SearchExpediente ''789012'' (Fin 2000) 0])
        (sessionWith 5 3 2 1))))"
proof -
  have h: "statsInvariant (stats (this (sessionWith 5 3 2 1)))"
    by (simp add: statsInvariant_def sessionWith_simps)
  from stats_invariant_preserved
         [of "sessionWith 5 3 2 1"
             "scriptedEnv None (Some ['''', '''', ''$1,000.00'']) True True" testFormat
             "[SearchExpediente ''123456'' (Fin 1000) 0, ResetStats,
               SearchExpediente ''789012'' (Fin 2000) 0]"] h
  show ?thesis by blast
qed

section \<open>Outcomes of a search\<close>

lemma searchExpediente_exhausted:
  "everyAttemptRaises E fmt expediente g (maxRetries (this s) - retryCount) s \<Longrightarrow>
   \<exists>s'. searchExpediente E fmt expediente g retryCount s
          = (Inr (errorOutcome (stats (this s'))), s')
      \<and> this s' = (this s)\<lparr>stats := (stats (this s))\<lparr>totalRevisados :=
            totalRevisados (stats (this s)) + (maxRetries (this s) - retryCount) + 1\<rparr>\<rparr>"
proof (induction E fmt expediente g retryCount s rule: searchExpediente.induct)
  case (1 E fmt expediente g retryCount s)
  obtain r s1 where a: "searchAttempt E fmt expediente g s = (r, s1)"
    by (cases "searchAttempt E fmt expediente g s")
  from "1.prems" a obtain e where r: "r = Inl e"
    by (cases "maxRetries (this s) - retryCount"; cases r) auto
  from a r have t1: "this s1 = incRevisados (this s)"
    by (simp add: searchAttempt_Inl)
  then have m1: "maxRetries (this s1) = maxRetries (this s)"
    by (simp add: incRevisados_def)
  show ?case
  proof (cases "retryCount < maxRetries (this s1)")
    case False
    with a r t1 m1 show ?thesis
      by (simp add: searchExpediente.simps [of E fmt expediente g retryCount s]
            incRevisados_def)
  next
    case True
    let ?s2 = "snd (delay E (retryDelay (this s1)) s1)"
    have t2: "this ?s2 = this s1" by (rule delay_this)
    from True m1 obtain n where n: "maxRetries (this s) - retryCount = Suc n"
      by (cases "maxRetries (this s) - retryCount") auto
    then have n': "maxRetries (this ?s2) - (retryCount + 1) = n"
      using t2 m1 by simp
    from "1.prems" a r n have "everyAttemptRaises E fmt expediente g n ?s2"
      by simp
    with n' have "everyAttemptRaises E fmt expediente g
        (maxRetries (this ?s2) - (retryCount + 1)) ?s2"
      by simp
    from "1.IH" [OF a [symmetric] r True this] obtain s' where
      res: "searchExpediente E fmt expediente g (retryCount + 1) ?s2
              = (Inr (errorOutcome (stats (this s'))), s')"
      and st: "this s' = (this ?s2)\<lparr>stats := (stats (this ?s2))\<lparr>totalRevisados :=
            totalRevisados (stats (this ?s2)) + (maxRetries (this ?s2) - (retryCount + 1)) + 1\<rparr>\<rparr>"
      by blast
    have "searchExpediente E fmt expediente g retryCount s
            = (Inr (errorOutcome (stats (this s'))), s')"
      using a r True res by (simp add: searchExpediente.simps [of E fmt expediente g retryCount s])
    moreover have "this s' = (this s)\<lparr>stats := (stats (this s))\<lparr>totalRevisados :=
            totalRevisados (stats (this s)) + (maxRetries (this s) - retryCount) + 1\<rparr>\<rparr>"
      using st n n' t2 t1 by (simp add: incRevisados_def)
    ultimately show ?thesis by blast
  qed
qed

text \<open>
  Claim C7. When the first attempt and every retry raise, the call returns: the object has
  \<open>validacion = 'Error en consulta'\<close>, empty strings in the six data fields and the
  counters of the service; \<open>totalRevisados\<close> has grown by one for each attempt.
\<close>

theorem exhausted_retries_error_outcome:
  assumes "everyAttemptRaises E fmt expediente g (maxRetries (this s) - retryCount) s"
  shows "\<exists>s'. searchExpediente E fmt expediente g retryCount s =
           (Inr \<lparr>costo = Some [], estatus = Some [], notas = Some [], fechaRegistro = Some [],
                 servicio = Some [], subservicio = Some [],
                 validacion = Some ''Error en consulta'', hayDatos = None,
                 costosCoinciden = None, outcome.stats = stats (this s')\<rparr>, s')
         \<and> stats (this s') = (stats (this s))\<lparr>totalRevisados :=
               totalRevisados (stats (this s)) + (maxRetries (this s) - retryCount) + 1\<rparr>"
proof -
  from searchExpediente_exhausted [OF assms] obtain s' where
    "searchExpediente E fmt expediente g retryCount s = (Inr (errorOutcome (stats (this s'))), s')"
    and "this s' = (this s)\<lparr>stats := (stats (this s))\<lparr>totalRevisados :=
            totalRevisados (stats (this s)) + (maxRetries (this s) - retryCount) + 1\<rparr>\<rparr>"
    by blast
  then show ?thesis
    by (intro exI [of _ s']) (simp add: errorOutcome_def errorEnConsulta_def)
qed

lemma everyAttemptRaises_scripted:
  "everyAttemptRaises (scriptedEnv None None True True) testFormat ''123456'' (Fin 1000)
     3 (sessionWith 0 0 0 4)"
  by (simp add: numeral_3_eq_3 sessionWith_simps searchAttempt_scripted [where p = 1])

theorem exhausted_retries_error_outcome_witness:
  "everyAttemptRaises (scriptedEnv None None True True) testFormat ''123456'' (Fin 1000)
     (maxRetries (this (sessionWith 0 0 0 4)) - 0) (sessionWith 0 0 0 4)
   \<and> fst (searchExpediente (scriptedEnv None None True True) testFormat ''123456'' (Fin 1000)
          0 (sessionWith 0 0 0 4))
     = Inr \<lparr>costo = Some [], estatus = Some [], notas = Some [], fechaRegistro = Some [],
            servicio = Some [], subservicio = Some [],
            validacion = Some ''Error en consulta'', hayDatos = None,
            costosCoinciden = None,
            outcome.stats = \<lparr>totalRevisados = 4, totalConCosto = 0, totalAceptados = 0\<rparr>\<rparr>"
proof -
  have h: "everyAttemptRaises (scriptedEnv None None True True) testFormat ''123456''
             (Fin 1000) (maxRetries (this (sessionWith 0 0 0 4)) - 0) (sessionWith 0 0 0 4)"
    using everyAttemptRaises_scripted by (simp add: sessionWith_simps)
  from exhausted_retries_error_outcome [OF h] h show ?thesis
    by (auto simp: sessionWith_simps)
qed

lemma evalSearchRow_noData:
  "noDataRow row \<Longrightarrow> evalSearchRow fmt row g = noDataResult"
  by (auto simp: noDataRow_def evalSearchRow_def tieneContenido_def split: option.splits)

lemma searchExpediente_first_attempt:
  assumes "fetchFirstRow E expediente (s\<lparr>this := incRevisados (this s)\<rparr>) = (Inr row, s1)"
    and "finishSearch E (evalSearchRow fmt row g) s1 = (Inr out, s')"
  shows "searchExpediente E fmt expediente g retryCount s = (Inr out, s')"
  using assms
  by (simp add: searchExpediente.simps [of E fmt expediente g retryCount s] searchAttempt_unfold)

text \<open>
  Claim C5, as the code has it. When the evaluation of the result table shows no cost, the
  call returns at once, in the state in which the evaluation left the service and the
  page: nothing is asked of the page after it, so the acceptance is not started. The
  object returned has no \<open>validacion\<close> property, nor any of the data fields; it has
  \<open>costosCoinciden = false\<close> and the counters, of which only \<open>totalRevisados\<close> has grown.
\<close>

theorem no_data_outcome:
  assumes "fetchFirstRow E expediente (s\<lparr>this := incRevisados (this s)\<rparr>) = (Inr row, s1)"
    and "noDataRow row"
  shows "searchExpediente E fmt expediente g retryCount s =
           (Inr \<lparr>costo = None, estatus = None, notas = None, fechaRegistro = None,
                 servicio = None, subservicio = None, validacion = None, hayDatos = None,
                 costosCoinciden = Some False, outcome.stats = stats (this s1)\<rparr>, s1)
         \<and> stats (this s1) = (stats (this s))\<lparr>totalRevisados :=
               totalRevisados (stats (this s)) + 1\<rparr>"
proof -
  have d: "evalSearchRow fmt row g = noDataResult"
    using assms(2) by (rule evalSearchRow_noData)
  have "finishSearch E noDataResult s1 =
          (Inr (withStats (noDataResult\<lparr>hayDatos := None\<rparr>) (stats (this s1))), s1)"
    by (rule finishSearch_noData) (simp add: noDataResult_def)
  with d have "searchExpediente E fmt expediente g retryCount s =
      (Inr (withStats (noDataResult\<lparr>hayDatos := None\<rparr>) (stats (this s1))), s1)"
    by (intro searchExpediente_first_attempt [OF assms(1)]) simp
  moreover have "this s1 = incRevisados (this s)"
    using worldOnlyD [OF worldOnly_fetchFirstRow assms(1)] by simp
  ultimately show ?thesis
    by (simp add: withStats_eq noDataResult_def incRevisados_def)
qed

theorem no_data_outcome_witness:
  "fetchFirstRow (scriptedEnv None (Some ['''', '''', '' $0 '']) True True) ''123456''
     ((sessionWith 0 0 0 0)\<lparr>this := incRevisados (this (sessionWith 0 0 0 0))\<rparr>)
     = (Inr (Some ['''', '''', '' $0 '']), sessionWith 1 0 0 0)
   \<and> noDataRow (Some ['''', '''', '' $0 ''])
   \<and> searchExpediente (scriptedEnv None (Some ['''', '''', '' $0 '']) True True) testFormat
       ''123456'' (Fin 1000) 0 (sessionWith 0 0 0 0)
     = (Inr \<lparr>costo = None, estatus = None, notas = None, fechaRegistro = None,
             servicio = None, subservicio = None, validacion = None, hayDatos = None,
             costosCoinciden = Some False,
             outcome.stats = \<lparr>totalRevisados = 1, totalConCosto = 0, totalAceptados = 0\<rparr>\<rparr>,
        sessionWith 1 0 0 0)"
proof -
  let ?row = "Some ['''', '''', '' $0 '']"
  have f: "fetchFirstRow (scriptedEnv None ?row True True) ''123456''
     ((sessionWith 0 0 0 0)\<lparr>this := incRevisados (this (sessionWith 0 0 0 0))\<rparr>)
     = (Inr ?row, sessionWith 1 0 0 0)"
    by (simp add: fetchFirstRow_scripted [where p = 1] sessionWith_simps)
  have n: "noDataRow ?row"
    by (simp add: noDataRow_def trim_def isWhiteSpace_def)
  from no_data_outcome [OF f n, of testFormat "Fin 1000" 0] f n show ?thesis
    by (simp add: sessionWith_simps)
qed

text \<open>
  Claim C5, as the specification has it, fails: for a first row whose cost cell is
  \<open>$0.00\<close> the object returned has no \<open>validacion\<close> property at all, so no classification
  is carried in it.
\<close>

theorem no_data_validation_counterexample:
  "searchExpediente (scriptedEnv None (Some ['''', '''', ''$0.00'']) True True) testFormat
     ''123456'' (Fin 1000) 0 (sessionWith 0 0 0 0)
   = (Inr \<lparr>costo = None, estatus = None, notas = None, fechaRegistro = None,
           servicio = None, subservicio = None, validacion = None, hayDatos = None,
           costosCoinciden = Some False,
           outcome.stats = \<lparr>totalRevisados = 1, totalConCosto = 0, totalAceptados = 0\<rparr>\<rparr>,
      sessionWith 1 0 0 0)"
proof -
  have r: "evalSearchRow testFormat (Some ['''', '''', ''$0.00'']) (Fin 1000) = noDataResult"
    by (simp add: evalSearchRow_def tieneContenido_def trim_def isWhiteSpace_def)
  show ?thesis
    by (subst searchExpediente.simps)
       (simp add: searchAttempt_scripted [where p = 1] finishSearch_scripted [where p = 1]
          sessionWith_simps r noDataResult_def withStats_eq)
qed





section \<open>Login and close\<close>

lemma neverFalse_throw: "neverFalse (throw e)"
  by (simp add: neverFalse_def throw_def)

lemma neverFalse_ret_True: "neverFalse (ret True)"
  by (simp add: neverFalse_def ret_def)

lemma neverFalse_bind: "(\<And>a. neverFalse (f a)) \<Longrightarrow> neverFalse (bind m f)"
  by (auto simp: neverFalse_def bind_def split: prod.splits sum.splits)

lemma neverFalse_tryCatch:
  "neverFalse m \<Longrightarrow> (\<And>e. neverFalse (h e)) \<Longrightarrow> neverFalse (tryCatch m h)"
  by (auto simp: neverFalse_def tryCatch_def split: prod.splits sum.splits)
     (metis fst_conv)+

lemma neverFalse_case_option:
  "neverFalse a \<Longrightarrow> (\<And>x. neverFalse (f x)) \<Longrightarrow> neverFalse (case_option a f opt)"
  by (cases opt) simp_all

lemma neverFalse_if: "neverFalse a \<Longrightarrow> neverFalse b \<Longrightarrow> neverFalse (if c then a else b)"
  by simp

lemma neverFalse_login: "neverFalse (login E)"
  unfolding login_def
  by (intro neverFalse_tryCatch neverFalse_bind neverFalse_case_option neverFalse_if
        neverFalse_throw neverFalse_ret_True)

lemma selectors_differ: "usernameSelector \<noteq> passwordSelector"
  by (simp add: usernameSelector_def passwordSelector_def dq_def)

text \<open>
  Claim C10. \<open>login\<close> never resolves with \<open>false\<close>: whatever the store, the page and the
  portal do, it either raises or resolves with \<open>true\<close>. Each failure is a raise: missing
  credentials raise the error of \<open>login\<close> before the page is touched; a wait for the
  username field or for the password field that runs into its timeout makes \<open>login\<close>
  reject with the error of the wait; and when every step succeeds, a password field that
  is still there raises the failed-login error, while a field that is gone is the one
  case in which \<open>login\<close> resolves, with \<open>true\<close>.
\<close>

theorem login_failures_raise:
  "fst (login E s) \<noteq> Inr False
   \<and> (getCredentials E (world s) = None \<longrightarrow>
        login E s = (Inl (Error ''No se encontraron credenciales configuradas''), s))
   \<and> (getCredentials E (world s) = Some c \<and> page (this s) = Some p
        \<and> pageGoto E (''https://'' @ portalHost) (world s) = (Inr (), wGoto)
        \<and> pageWaitForSelector E usernameSelector wGoto = (Inl e, wUser) \<longrightarrow>
        login E s = (Inl e, s\<lparr>world := wUser\<rparr>))
   \<and> (getCredentials E (world s) = Some c \<and> page (this s) = Some p
        \<and> pageGoto E (''https://'' @ portalHost) (world s) = (Inr (), wGoto)
        \<and> pageWaitForSelector E usernameSelector wGoto = (Inr (), wUser)
        \<and> pageWaitForSelector E passwordSelector wUser = (Inl e, wPass) \<longrightarrow>
        login E s = (Inl e, s\<lparr>world := wPass\<rparr>))
   \<and> (getCredentials E (world s) = Some c \<and> page (this s) = Some p
        \<and> pageGoto E (''https://'' @ portalHost) (world s) = (Inr (), wGoto)
        \<and> pageWaitForSelector E usernameSelector wGoto = (Inr (), wUser)
        \<and> pageWaitForSelector E passwordSelector wUser = (Inr (), wPass)
        \<and> pageType E usernameSelector (username c) wPass = (Inr (), wTypeU)
        \<and> pageType E passwordSelector (password c) wTypeU = (Inr (), wTypeP)
        \<and> pageClick E submitSelector wTypeP = (Inr (), wClick)
        \<and> pageWaitForNavigation E wClick = (Inr (), wNav)
        \<and> pagePasswordFieldAbsent E wNav = (Inr absent, wEval) \<longrightarrow>
        login E s =
          (if absent then (Inr True, s\<lparr>world := sleep E 2000 wEval\<rparr>)
           else (Inl (Error ''Login fallido. Verifique sus credenciales.''), s\<lparr>world := wEval\<rparr>)))"
proof (intro conjI)
  show "fst (login E s) \<noteq> Inr False"
    using neverFalse_login [of E] by (simp add: neverFalse_def)
qed (simp_all add: login_def tryCatch_def bind_def ret_def throw_def onPage_def io_def delay_def)

theorem login_failures_raise_witness:
  "getCredentials (scriptedEnv None None True True) (world (sessionWith 0 0 0 0)) = None
   \<and> login (scriptedEnv None None True True) (sessionWith 0 0 0 0)
       = (Inl (Error ''No se encontraron credenciales configuradas''), sessionWith 0 0 0 0)
   \<and> pageWaitForSelector (timeoutEnv usernameSelector) usernameSelector 0
       = (Inl (Error ''TimeoutError''), 1)
   \<and> login (timeoutEnv usernameSelector) (sessionWith 0 0 0 0)
       = (Inl (Error ''TimeoutError''), sessionWith 0 0 0 1)
   \<and> pageWaitForSelector (timeoutEnv passwordSelector) usernameSelector 0 = (Inr (), 0)
   \<and> pageWaitForSelector (timeoutEnv passwordSelector) passwordSelector 0
       = (Inl (Error ''TimeoutError''), 1)
   \<and> login (timeoutEnv passwordSelector) (sessionWith 0 0 0 0)
       = (Inl (Error ''TimeoutError''), sessionWith 0 0 0 1)
   \<and> pagePasswordFieldAbsent rejectedLoginEnv 0 = (Inr False, 0)
   \<and> login rejectedLoginEnv (sessionWith 0 0 0 0)
       = (Inl (Error ''Login fallido. Verifique sus credenciales.''), sessionWith 0 0 0 0)
   \<and> pagePasswordFieldAbsent (scriptedEnv (Some testCredentials) None True True) 0
       = (Inr True, 0)
   \<and> login (scriptedEnv (Some testCredentials) None True True) (sessionWith 0 0 0 0)
       = (Inr True, sessionWith 0 0 0 0)"
  using login_failures_raise
          [where E = "scriptedEnv None None True True" and s = "sessionWith 0 0 0 0"]
        login_failures_raise
          [where E = "timeoutEnv usernameSelector" and s = "sessionWith 0 0 0 0"
             and c = testCredentials and p = 1 and wGoto = 0
             and e = "Error ''TimeoutError''" and wUser = 1]
        login_failures_raise
          [where E = "timeoutEnv passwordSelector" and s = "sessionWith 0 0 0 0"
             and c = testCredentials and p = 1 and wGoto = 0 and wUser = 0
             and e = "Error ''TimeoutError''" and wPass = 1]
        login_failures_raise
          [where E = rejectedLoginEnv and s = "sessionWith 0 0 0 0"
             and c = testCredentials and p = 1 and wGoto = 0 and wUser = 0 and wPass = 0 and wTypeU = 0
             and wTypeP = 0 and wClick = 0 and wNav = 0 and absent = False and wEval = 0]
        login_failures_raise
          [where E = "scriptedEnv (Some testCredentials) None True True"
             and s = "sessionWith 0 0 0 0"
             and c = testCredentials and p = 1 and wGoto = 0 and wUser = 0 and wPass = 0 and wTypeU = 0
             and wTypeP = 0 and wClick = 0 and wNav = 0 and absent = True and wEval = 0]
        selectors_differ
  by (simp add: timeoutEnv_def rejectedLoginEnv_def scriptedEnv_def sessionWith_simps)

lemma login_scripted:
  "login (scriptedEnv (Some c) row a f) (sessionWith r k n w) = (Inr True, sessionWith r k n w)"
  by (simp add: login_def tryCatch_def bind_def ret_def throw_def onPage_def io_def delay_def
        scriptedEnv_def sessionWith_def constructor_def)

text \<open>
  Claim C8, as the specification has it, fails: with stored credentials whose username
  and password are both empty, \<open>login\<close> does not raise the missing-credentials error. It
  goes to the portal (the world below counts the navigations) and types the two empty
  texts; when the portal keeps showing the password field, the error raised is the one
  of a failed login, and with a portal that drops the field \<open>login\<close> resolves with
  \<open>true\<close>.
\<close>

theorem login_empty_credentials_counterexample:
  "login
     ((scriptedEnv (Some \<lparr>username = [], password = []\<rparr>) None True True)
        \<lparr>pageGoto := \<lambda>url w. (Inr (), w + 1),
         pagePasswordFieldAbsent := \<lambda>w. (Inr False, w)\<rparr>)
     (sessionWith 0 0 0 0)
   = (Inl (Error ''Login fallido. Verifique sus credenciales.''), sessionWith 0 0 0 1)
   \<and> login (scriptedEnv (Some \<lparr>username = [], password = []\<rparr>) None True True)
       (sessionWith 0 0 0 0)
     = (Inr True, sessionWith 0 0 0 0)"
  by (simp add: login_scripted)
     (simp add: login_def tryCatch_def bind_def ret_def throw_def onPage_def io_def delay_def
        scriptedEnv_def sessionWith_def constructor_def)

text \<open>
  Claim C8, as the code has it. The one check is for credentials that are not there: then
  \<open>login\<close> raises its missing-credentials error with the page and the portal untouched.
  Credentials that are there are not looked into before the navigation to the portal:
  whatever username and password they hold, a navigation that rejects makes \<open>login\<close>
  reject with the error of the navigation.
\<close>

theorem login_missing_credentials:
  "(getCredentials E (world s) = None \<longrightarrow>
      login E s = (Inl (Error ''No se encontraron credenciales configuradas''), s))
   \<and> (getCredentials E (world s) = Some c \<and> page (this s) = Some p
        \<and> pageGoto E (''https://'' @ portalHost) (world s) = (Inl e, w') \<longrightarrow>
      login E s = (Inl e, s\<lparr>world := w'\<rparr>))"
  by (simp add: login_def tryCatch_def bind_def ret_def throw_def onPage_def io_def)

theorem login_missing_credentials_witness:
  "getCredentials (scriptedEnv None None True True) (world (sessionWith 0 0 0 0)) = None
   \<and> login (scriptedEnv None None True True) (sessionWith 0 0 0 0)
       = (Inl (Error ''No se encontraron credenciales configuradas''), sessionWith 0 0 0 0)
   \<and> getCredentials
         ((scriptedEnv (Some \<lparr>username = [], password = []\<rparr>) None True True)
            \<lparr>pageGoto := \<lambda>url w. (Inl (Error ''net::ERR_CONNECTION_REFUSED''), w + 1)\<rparr>)
         (world (sessionWith 0 0 0 0)) = Some \<lparr>username = [], password = []\<rparr>
   \<and> page (this (sessionWith 0 0 0 0)) = Some 1
   \<and> login
         ((scriptedEnv (Some \<lparr>username = [], password = []\<rparr>) None True True)
            \<lparr>pageGoto := \<lambda>url w. (Inl (Error ''net::ERR_CONNECTION_REFUSED''), w + 1)\<rparr>)
         (sessionWith 0 0 0 0)
       = (Inl (Error ''net::ERR_CONNECTION_REFUSED''), sessionWith 0 0 0 1)"
  using login_missing_credentials
          [of "scriptedEnv None None True True" "sessionWith 0 0 0 0"]
        login_missing_credentials
          [of "(scriptedEnv (Some \<lparr>username = [], password = []\<rparr>) None True True)
                 \<lparr>pageGoto := \<lambda>url w. (Inl (Error ''net::ERR_CONNECTION_REFUSED''), w + 1)\<rparr>"
              "sessionWith 0 0 0 0" "\<lparr>username = [], password = []\<rparr>" 1
              "Error ''net::ERR_CONNECTION_REFUSED''" 1]
  by (simp add: scriptedEnv_def sessionWith_simps)

text \<open>
  The constructor sets \<open>browser\<close> and \<open>page\<close> to null, \<open>initialize\<close> sets the browser before
  the page, and no other method sets either but \<open>close\<close>: in every state the service
  reaches, the page is set only if the browser is.
\<close>

lemma worldOnly_login: "worldOnly (login E)"
proof -
  have "worldOnly (\<lambda>s. ret (getCredentials E (world s)) s)"
    by (simp add: worldOnly_def ret_def)
  then show ?thesis
    unfolding login_def by (intro worldOnly_intros)
qed

lemma close_handles:
  "page (this s) \<noteq> None \<longrightarrow> browser (this s) \<noteq> None \<Longrightarrow>
   page (this (snd (close E s))) \<noteq> None \<longrightarrow> browser (this (snd (close E s))) \<noteq> None"
  by (auto simp: close_def ret_def bind_def delay_def io_def modify_def
        split: option.splits prod.splits sum.splits)

text \<open>
  Claim C9, as the specification has it, fails. With a browser whose own \<open>close\<close>
  rejects, the first call of \<open>close\<close> raises, and so does the second: the method has no
  handler for the rejection and both fields are left set. And from a state whose browser
  is null while its page is set (the fields are public properties, which the unit tests
  assign), \<open>close\<close> does nothing and the page stays set.
\<close>

theorem close_twice_counterexample:
  "close rejectingCloseEnv (sessionWith 0 0 0 0)
     = (Inl (Error ''Protocol error: Connection closed''), sessionWith 0 0 0 1)
   \<and> close rejectingCloseEnv (sessionWith 0 0 0 1)
     = (Inl (Error ''Protocol error: Connection closed''), sessionWith 0 0 0 2)
   \<and> browser (this (sessionWith 0 0 0 2)) = Some 1
   \<and> page (this (sessionWith 0 0 0 2)) = Some 1
   \<and> close (scriptedEnv None None True True) \<lparr>this = constructor\<lparr>page := Some 1\<rparr>, world = 0\<rparr>
     = (Inr (), \<lparr>this = constructor\<lparr>page := Some 1\<rparr>, world = 0\<rparr>)
   \<and> page (this \<lparr>this = constructor\<lparr>page := Some 1\<rparr>, world = 0 :: nat\<rparr>) = Some 1"
  by (simp add: close_def ret_def bind_def delay_def io_def modify_def scriptedEnv_def
        rejectingCloseEnv_def sessionWith_def constructor_def)

text \<open>
  Claim C9, as the code has it. \<open>close\<close> on a service without a browser does nothing and
  does not raise. From a state in which the page is set only if the browser is, and with
  a browser whose own \<open>close\<close> resolves, two calls of \<open>close\<close> in a row both succeed, the
  second without a change, and leave \<open>browser\<close> and \<open>page\<close> null. When the \<open>close\<close> of the
  browser rejects, \<open>close\<close> rejects with the same error and sets neither field.
\<close>

theorem close_idempotent:
  "(browser (this s) = None \<longrightarrow> close E s = (Inr (), s))
   \<and> ((page (this s) \<noteq> None \<longrightarrow> browser (this s) \<noteq> None)
        \<and> (browser (this s) \<noteq> None \<longrightarrow>
             fst (browserClose E (sleep E 2000 (world s))) = Inr ()) \<longrightarrow>
      (\<exists>s1. close E s = (Inr (), s1) \<and> close E s1 = (Inr (), s1)
            \<and> browser (this s1) = None \<and> page (this s1) = None))
   \<and> (browser (this s) = Some b \<and> browserClose E (sleep E 2000 (world s)) = (Inl e, w') \<longrightarrow>
        close E s = (Inl e, s\<lparr>world := w'\<rparr>))"
  by (auto simp: close_def ret_def bind_def delay_def io_def modify_def
        split: option.splits prod.splits sum.splits)

theorem close_idempotent_witness:
  "browser (this \<lparr>this = constructor, world = 0\<rparr>) = None
   \<and> close (scriptedEnv None None True True) \<lparr>this = constructor, world = 0\<rparr>
       = (Inr (), \<lparr>this = constructor, world = 0\<rparr>)
   \<and> page (this (sessionWith 0 0 0 0)) = Some 1
   \<and> browser (this (sessionWith 0 0 0 0)) = Some 1
   \<and> fst (browserClose (scriptedEnv None None True True)
            (sleep (scriptedEnv None None True True) 2000 (world (sessionWith 0 0 0 0))))
       = Inr ()
   \<and> close (scriptedEnv None None True True) (sessionWith 0 0 0 0)
       = (Inr (), \<lparr>this = constructor, world = 0\<rparr>)
   \<and> page constructor = None
   \<and> browserClose rejectingCloseEnv (sleep rejectingCloseEnv 2000 (world (sessionWith 3 2 1 5)))
       = (Inl (Error ''Protocol error: Connection closed''), 6)
   \<and> close rejectingCloseEnv (sessionWith 3 2 1 5)
       = (Inl (Error ''Protocol error: Connection closed''), sessionWith 3 2 1 6)"
  using close_idempotent [of "\<lparr>this = constructor, world = 0\<rparr>" "scriptedEnv None None True True"]
        close_idempotent [of "sessionWith 0 0 0 0" "scriptedEnv None None True True"]
        close_idempotent [of "sessionWith 3 2 1 5" rejectingCloseEnv 1
                             "Error ''Protocol error: Connection closed''" 6]
  by (simp add: close_def ret_def bind_def delay_def io_def modify_def scriptedEnv_def
        rejectingCloseEnv_def sessionWith_def constructor_def)

end
